theory Spec2Isabelle
  imports Main
begin

section \<open>Data model\<close>

text \<open>
  The two Mongoose schemas (\<^verbatim>\<open>userSchema\<close>, \<^verbatim>\<open>notificationSchema\<close>). An
  ObjectId is a natural number: the value after Mongoose's cast. A collection is the
  list of its documents in insertion order. The modular copy of the notification model
  calls the recipient array \<^verbatim>\<open>userIds\<close>; it is the same field.
\<close>

type_synonym oid = nat

record user =
  u_id :: oid
  email :: string
  username :: string
  password :: string
  isDeleted :: bool
  isAdmin :: bool
  notifications :: "oid list"

record notification =
  n_id :: oid
  message :: string
  createdAt :: nat
  isRead :: bool
  recipients :: "oid list"

record db =
  users :: "user list"
  notifs :: "notification list"

text \<open>The Mongoose model methods a handler calls, in call order.\<close>

datatype store_op =
    User_save | User_findOne | User_findById | User_updateMany | User_findByIdAndUpdate
  | Notification_save | Notification_find | Notification_findById
  | Notification_updateMany | Notification_deleteOne

section \<open>Tokens\<close>

record claims =
  userId :: oid
  tok_isAdmin :: bool
  iat :: nat
  expiry :: nat

text \<open>
  A cookie value is either a string that is no JWT at all, or a JWT: its payload and the
  key its signature was made with.
\<close>

datatype token = Malformed string | Jwt claims string

datatype jwt_error = InvalidToken | TokenExpired

text \<open>
  Modelled from the spec: \<^verbatim>\<open>jwt.sign\<close> and \<^verbatim>\<open>jwt.verify\<close> belong to the
  jsonwebtoken package, which is not under src/. The spec: issue returns a signed token
  embedding the user id, the admin flag and the issue time with a fixed 1-hour expiry;
  verify returns the embedded claims or fails with InvalidToken (malformed or signature
  mismatch) or TokenExpired, and the expiry is checked even if the signature is valid.
  Times are in seconds. At the very second of the expiry, on which the spec is silent,
  the token is rejected, as the package does.
\<close>

definition jwt_sign :: "oid \<Rightarrow> bool \<Rightarrow> string \<Rightarrow> nat \<Rightarrow> token" where
  "jwt_sign uid adm secret t =
     Jwt \<lparr>userId = uid, tok_isAdmin = adm, iat = t, expiry = t + 3600\<rparr> secret"

fun jwt_verify :: "token \<Rightarrow> string \<Rightarrow> nat \<Rightarrow> jwt_error + claims" where
  "jwt_verify (Malformed s) secret t = Inl InvalidToken"
| "jwt_verify (Jwt c k) secret t =
     (if k \<noteq> secret then Inl InvalidToken
      else if expiry c \<le> t then Inl TokenExpired
      else Inr c)"

section \<open>Requests, responses, environment\<close>

datatype jv =
    JString string | JNum nat | JBool bool | JId oid
  | JUser user | JNotification notification | JNotifications "notification list"

datatype cookie_op = NoCookie | SetToken token bool | ClearToken

record response =
  status :: nat
  json :: "(string \<times> jv) list"
  cookie :: cookie_op

text \<open>
  A handler either sends a response or its promise rejects with nothing sent (an
  \<^verbatim>\<open>await\<close> that throws outside any \<^verbatim>\<open>try\<close>).
\<close>

datatype result = Sent response | Unhandled string

record outcome =
  res :: result
  store :: db
  trace :: "store_op list"

text \<open>
  A JSON body. A string or id field that is absent is \<open>None\<close>. A field meant to hold
  an array of ids is absent, a single id (no array), or an array.
\<close>

datatype ids_field = NoIds | OneId oid | Ids "oid list"

record req_body =
  b_email :: "string option"
  b_username :: "string option"
  b_password :: "string option"
  b_message :: "string option"
  b_recipientIds :: ids_field
  b_userIds :: ids_field
  b_notificationIds :: ids_field
  b_userId :: "oid option"

record req =
  cookie_token :: "token option"
  params_id :: oid
  query_range :: "string option"
  query_userId :: "oid option"
  body :: req_body

text \<open>
  What the process reads from outside the repository: the environment variables, the
  bcryptjs functions, zod's e-mail test, the local-time \<^verbatim>\<open>Date\<close> arithmetic of
  the filter endpoint, and whether the installed Mongoose still gives a document the
  method \<^verbatim>\<open>remove\<close> (it is gone since Mongoose 7).
\<close>

record env =
  JWT_SECRET :: string
  production :: bool
  bcrypt_hash :: "string \<Rightarrow> string"
  bcrypt_compare :: "string \<Rightarrow> string \<Rightarrow> bool"
  is_email :: "string \<Rightarrow> bool"
  startOfToday :: "nat \<Rightarrow> nat"
  startOfThisWeek :: "nat \<Rightarrow> nat"
  startOfLastMonth :: "nat \<Rightarrow> nat"
  document_remove :: bool

definition reply :: "nat \<Rightarrow> (string \<times> jv) list \<Rightarrow> db \<Rightarrow> store_op list \<Rightarrow> outcome" where
  "reply st js d tr =
     \<lparr>res = Sent \<lparr>status = st, json = js, cookie = NoCookie\<rparr>, store = d, trace = tr\<rparr>"

definition rejects :: "string \<Rightarrow> db \<Rightarrow> store_op list \<Rightarrow> outcome" where
  "rejects err d tr = \<lparr>res = Unhandled err, store = d, trace = tr\<rparr>"

section \<open>Middleware\<close>

text \<open>
  \<^verbatim>\<open>!token\<close>: the cookie is absent, or present with the empty string as its value.
\<close>

fun no_token :: "token option \<Rightarrow> bool" where
  "no_token None = True"
| "no_token (Some (Malformed s)) = (s = [])"
| "no_token (Some (Jwt c k)) = False"

text \<open>
  \<^verbatim>\<open>authenticateToken\<close>; the clock is in milliseconds, the token's times in seconds.
  Past the first test the cookie is present, so the \<open>None\<close> branch of the case is
  never taken.
\<close>

definition authenticateToken ::
  "env \<Rightarrow> nat \<Rightarrow> (claims \<Rightarrow> req \<Rightarrow> db \<Rightarrow> outcome) \<Rightarrow> req \<Rightarrow> db \<Rightarrow> outcome" where
  "authenticateToken e now nxt r d =
     (if no_token (cookie_token r)
      then reply 401 [(''message'', JString ''Token required'')] d []
      else (case cookie_token r of
              None \<Rightarrow> reply 401 [(''message'', JString ''Token required'')] d []
            | Some t \<Rightarrow>
                (case jwt_verify t (JWT_SECRET e) (now div 1000) of
                   Inl err \<Rightarrow> reply 403 [(''message'', JString ''Invalid token'')] d []
                 | Inr usr \<Rightarrow> nxt usr r d)))"

section \<open>Store operations\<close>

text \<open>The driver gives every new document an ObjectId no document of the collection has.\<close>

definition new_oid :: "oid list \<Rightarrow> oid" where
  "new_oid ids = Suc (fold max ids 0)"

text \<open>\<^verbatim>\<open>User.findOne({ email, isDeleted: false })\<close>\<close>

definition User_findOne_active :: "db \<Rightarrow> string \<Rightarrow> user option" where
  "User_findOne_active d em = find (\<lambda>u. email u = em \<and> \<not> isDeleted u) (users d)"

definition User_findById_q :: "db \<Rightarrow> oid \<Rightarrow> user option" where
  "User_findById_q d i = find (\<lambda>u. u_id u = i) (users d)"

definition Notification_findById_q :: "db \<Rightarrow> oid \<Rightarrow> notification option" where
  "Notification_findById_q d i = find (\<lambda>n. n_id n = i) (notifs d)"

text \<open>
  \<^verbatim>\<open>newUser.save()\<close>: the schema requires the three strings (an empty string fails
  \<^verbatim>\<open>required\<close>) and the unique index on \<^verbatim>\<open>email\<close> refuses a second document with
  the same e-mail, deleted or not.
\<close>

definition User_save_new :: "db \<Rightarrow> string \<Rightarrow> string \<Rightarrow> string \<Rightarrow> string + db" where
  "User_save_new d em un pw =
     (if em = [] \<or> un = [] \<or> pw = [] then Inl ''ValidationError''
      else if em \<in> set (map email (users d)) then Inl ''E11000 duplicate key''
      else Inr (d\<lparr>users := users d @
             [\<lparr>u_id = new_oid (map u_id (users d)), email = em, username = un, password = pw,
               isDeleted = False, isAdmin = False, notifications = []\<rparr>]\<rparr>))"

text \<open>
  \<^verbatim>\<open>notification.save()\<close> of a new document: \<^verbatim>\<open>message\<close> is required, the
  recipient array has no validator; \<^verbatim>\<open>isRead\<close> and \<^verbatim>\<open>createdAt\<close> take their
  defaults.
\<close>

definition Notification_save_new ::
  "db \<Rightarrow> nat \<Rightarrow> string option \<Rightarrow> oid list \<Rightarrow> string + (notification \<times> db)" where
  "Notification_save_new d now msg rs =
     (case msg of
        None \<Rightarrow> Inl ''ValidationError''
      | Some m \<Rightarrow>
          if m = [] then Inl ''ValidationError''
          else (let n = \<lparr>n_id = new_oid (map n_id (notifs d)), message = m, createdAt = now,
                          isRead = False, recipients = rs\<rparr>
                in Inr (n, d\<lparr>notifs := notifs d @ [n]\<rparr>)))"

text \<open>\<^verbatim>\<open>User.updateMany({ _id: { $in: ids } }, { $push: { notifications: nid } })\<close>\<close>

definition User_push_notification :: "db \<Rightarrow> oid list \<Rightarrow> oid \<Rightarrow> db" where
  "User_push_notification d ids nid =
     d\<lparr>users := map (\<lambda>u. if u_id u \<in> set ids
                          then u\<lparr>notifications := notifications u @ [nid]\<rparr> else u) (users d)\<rparr>"

text \<open>\<^verbatim>\<open>User.updateMany({ notifications: id }, { $pull: { notifications: id } })\<close>\<close>

definition User_pull_notification :: "db \<Rightarrow> oid \<Rightarrow> db" where
  "User_pull_notification d nid =
     d\<lparr>users := map (\<lambda>u. if nid \<in> set (notifications u)
                          then u\<lparr>notifications := removeAll nid (notifications u)\<rparr> else u)
                    (users d)\<rparr>"

text \<open>
  \<^verbatim>\<open>Notification.updateMany(filter, { isRead: true })\<close>: every matched document gets
  the flag; \<^verbatim>\<open>modifiedCount\<close> counts the matched documents the update changed.
\<close>

definition Notification_updateMany_read :: "db \<Rightarrow> (notification \<Rightarrow> bool) \<Rightarrow> nat \<times> db" where
  "Notification_updateMany_read d flt =
     (length (filter (\<lambda>n. flt n \<and> \<not> isRead n) (notifs d)),
      d\<lparr>notifs := map (\<lambda>n. if flt n then n\<lparr>isRead := True\<rparr> else n) (notifs d)\<rparr>)"

text \<open>
  \<^verbatim>\<open>notification.deleteOne()\<close>, and \<^verbatim>\<open>notification.remove()\<close> where Mongoose
  still has it.
\<close>

definition Notification_delete :: "db \<Rightarrow> oid \<Rightarrow> db" where
  "Notification_delete d i = d\<lparr>notifs := filter (\<lambda>n. n_id n \<noteq> i) (notifs d)\<rparr>"

text \<open>\<^verbatim>\<open>User.findByIdAndUpdate(id, update)\<close>: the first document with the id.\<close>

fun update_first :: "oid \<Rightarrow> (user \<Rightarrow> user) \<Rightarrow> user list \<Rightarrow> user list" where
  "update_first i f [] = []"
| "update_first i f (u # us) = (if u_id u = i then f u # us else u # update_first i f us)"

definition User_findByIdAndUpdate_q :: "db \<Rightarrow> oid \<Rightarrow> (user \<Rightarrow> user) \<Rightarrow> user option \<times> db" where
  "User_findByIdAndUpdate_q d i f =
     (map_option f (User_findById_q d i), d\<lparr>users := update_first i f (users d)\<rparr>)"

text \<open>\<^verbatim>\<open>.populate("notifications")\<close>: the documents the ids refer to, where they exist.\<close>

definition populate :: "db \<Rightarrow> oid list \<Rightarrow> notification list" where
  "populate d ids = List.map_filter (Notification_findById_q d) ids"

section \<open>Validation\<close>

text \<open>
  The zod schemas, as the message of the first issue (\<^verbatim>\<open>err.errors[0].message\<close>), and
  the \<^verbatim>\<open>validate\<close> middleware.
\<close>

definition registerSchema :: "env \<Rightarrow> req_body \<Rightarrow> string option" where
  "registerSchema e b =
     (case b_email b of
        None \<Rightarrow> Some ''Required''
      | Some em \<Rightarrow>
          if \<not> is_email e em then Some ''Invalid email format''
          else (case b_username b of
                  None \<Rightarrow> Some ''Required''
                | Some un \<Rightarrow>
                    if length un < 3 then Some ''Username must be at least 3 characters long''
                    else (case b_password b of
                            None \<Rightarrow> Some ''Required''
                          | Some pw \<Rightarrow>
                              if length pw < 6
                              then Some ''Password must be at least 6 characters long''
                              else None)))"

definition loginSchema :: "env \<Rightarrow> req_body \<Rightarrow> string option" where
  "loginSchema e b =
     (case b_email b of
        None \<Rightarrow> Some ''Required''
      | Some em \<Rightarrow>
          if \<not> is_email e em then Some ''Invalid email format''
          else (case b_password b of
                  None \<Rightarrow> Some ''Required''
                | Some pw \<Rightarrow>
                    if length pw < 6 then Some ''Password must be at least 6 characters long''
                    else None))"

definition validate ::
  "(req_body \<Rightarrow> string option) \<Rightarrow> (req \<Rightarrow> db \<Rightarrow> outcome) \<Rightarrow> req \<Rightarrow> db \<Rightarrow> outcome" where
  "validate schema nxt r d =
     (case schema (body r) of
        Some msg \<Rightarrow>
          reply 400 [(''message'', JString ''Invalid data''), (''errors'', JString msg)] d []
      | None \<Rightarrow> nxt r d)"

section \<open>Handlers of the auth controller\<close>

text \<open>
  \<^verbatim>\<open>registerController\<close>, \<^verbatim>\<open>loginController\<close>, \<^verbatim>\<open>grantAdminPrivileges\<close>,
  \<^verbatim>\<open>deleteUser\<close>, \<^verbatim>\<open>protectedEndpoint\<close>, \<^verbatim>\<open>logoutController\<close>. The inline
  handlers of index.js for the same routes have the same text. Register and login run
  behind \<^verbatim>\<open>validate\<close>, which lets no body without the required strings through; for
  such a body the model takes the handler's \<^verbatim>\<open>catch\<close> branch.
\<close>

definition registerController :: "env \<Rightarrow> req \<Rightarrow> db \<Rightarrow> outcome" where
  "registerController e r d =
     (case (b_email (body r), b_username (body r), b_password (body r)) of
        (Some em, Some un, Some pw) \<Rightarrow>
          (case User_save_new d em un (bcrypt_hash e pw) of
             Inr d' \<Rightarrow>
               reply 201 [(''message'', JString ''User successfully registered'')] d' [User_save]
           | Inl err \<Rightarrow>
               reply 500 [(''message'', JString ''Registration error''), (''error'', JString err)]
                 d [User_save])
      | _ \<Rightarrow>
          reply 500 [(''message'', JString ''Registration error''),
                     (''error'', JString ''Illegal arguments'')] d [])"

definition loginController :: "env \<Rightarrow> nat \<Rightarrow> req \<Rightarrow> db \<Rightarrow> outcome" where
  "loginController e now r d =
     (case (b_email (body r), b_password (body r)) of
        (Some em, Some pw) \<Rightarrow>
          (case User_findOne_active d em of
             None \<Rightarrow> reply 401 [(''message'', JString ''Invalid credentials'')] d [User_findOne]
           | Some u \<Rightarrow>
               if \<not> bcrypt_compare e pw (password u)
               then reply 401 [(''message'', JString ''Invalid credentials'')] d [User_findOne]
               else \<lparr>res = Sent
                       \<lparr>status = 200,
                        json = [(''message'', JString ''Login successful''), (''id'', JId (u_id u)),
                                (''isAdmin'', JBool (isAdmin u))],
                        cookie = SetToken (jwt_sign (u_id u) (isAdmin u) (JWT_SECRET e)
                                             (now div 1000)) (production e)\<rparr>,
                     store = d, trace = [User_findOne]\<rparr>)
      | _ \<Rightarrow>
          reply 500 [(''message'', JString ''Login error''),
                     (''error'', JString ''Illegal arguments'')] d [])"

definition grantAdminPrivileges :: "claims \<Rightarrow> req \<Rightarrow> db \<Rightarrow> outcome" where
  "grantAdminPrivileges usr r d =
     (if \<not> tok_isAdmin usr
      then reply 403 [(''message'', JString ''Admin privileges required'')] d []
      else reply 200 [(''message'', JString ''User granted admin privileges'')]
             (snd (User_findByIdAndUpdate_q d (params_id r) (\<lambda>u. u\<lparr>isAdmin := True\<rparr>)))
             [User_findByIdAndUpdate])"

definition deleteUser :: "claims \<Rightarrow> req \<Rightarrow> db \<Rightarrow> outcome" where
  "deleteUser usr r d =
     (case User_findByIdAndUpdate_q d (params_id r) (\<lambda>u. u\<lparr>isDeleted := True\<rparr>) of
        (None, d') \<Rightarrow>
          reply 404 [(''message'', JString ''User not found'')] d' [User_findByIdAndUpdate]
      | (Some u, d') \<Rightarrow>
          reply 200 [(''message'', JString ''User deleted''), (''user'', JUser u)] d'
            [User_findByIdAndUpdate])"

definition protectedEndpoint :: "claims \<Rightarrow> req \<Rightarrow> db \<Rightarrow> outcome" where
  "protectedEndpoint usr r d =
     reply 200 [(''message'', JString ''Access to protected route''),
                (''userId'', JId (userId usr))] d []"

definition logoutController :: "req \<Rightarrow> db \<Rightarrow> outcome" where
  "logoutController r d =
     \<lparr>res = Sent \<lparr>status = 200,
                  json = [(''message'', JString ''Logout successful, token removed'')],
                  cookie = ClearToken\<rparr>,
      store = d, trace = []\<rparr>"

section \<open>Handlers of the notification controller\<close>

text \<open>
  \<^verbatim>\<open>createNotification\<close>, \<^verbatim>\<open>getUserNotifications\<close>,
  \<^verbatim>\<open>markNotificationsAsRead\<close>, \<^verbatim>\<open>markAllNotificationsAsRead\<close>,
  \<^verbatim>\<open>deleteNotification\<close>: the caller's id comes from the body or the query. The
  Spanish message literals are written without their accents. The delete handler calls
  \<^verbatim>\<open>notification.remove()\<close>: where the installed Mongoose has no such method the call
  throws into the handler's \<^verbatim>\<open>catch\<close> and nothing is deleted.
\<close>

definition createNotification :: "nat \<Rightarrow> req \<Rightarrow> db \<Rightarrow> outcome" where
  "createNotification now r d =
     (case (b_message (body r), b_userIds (body r)) of
        (Some m, Ids ids) \<Rightarrow>
          if m = [] \<or> ids = []
          then reply 400 [(''message'', JString ''Mensaje y lista de usuarios son requeridos'')]
                 d []
          else (case Notification_save_new d now (Some m) ids of
                  Inl err \<Rightarrow>
                    reply 500 [(''message'', JString ''Error al crear notificacion''),
                               (''error'', JString err)] d [Notification_save]
                | Inr (n, d') \<Rightarrow>
                    reply 201 [(''message'', JString ''Notificacion creada''),
                               (''newNotification'', JNotification n)]
                      (User_push_notification d' ids (n_id n))
                      [Notification_save, User_updateMany])
      | _ \<Rightarrow>
          reply 400 [(''message'', JString ''Mensaje y lista de usuarios son requeridos'')] d [])"

definition getUserNotifications :: "req \<Rightarrow> db \<Rightarrow> outcome" where
  "getUserNotifications r d =
     (case query_userId r of
        None \<Rightarrow> reply 400 [(''message'', JString ''ID de usuario requerido'')] d []
      | Some uid \<Rightarrow>
          reply 200 [(''notifications'',
                      JNotifications (filter (\<lambda>n. uid \<in> set (recipients n)) (notifs d)))]
            d [Notification_find])"

definition markNotificationsAsRead :: "req \<Rightarrow> db \<Rightarrow> outcome" where
  "markNotificationsAsRead r d =
     (case (b_notificationIds (body r), b_userId (body r)) of
        (Ids ids, Some uid) \<Rightarrow>
          if ids = []
          then reply 400
                 [(''message'', JString ''IDs de notificacion y ID de usuario requeridos'')] d []
          else reply 200 [(''message'', JString ''Notificaciones marcadas como leidas'')]
                 (snd (Notification_updateMany_read d
                         (\<lambda>n. n_id n \<in> set ids \<and> uid \<in> set (recipients n))))
                 [Notification_updateMany]
      | _ \<Rightarrow>
          reply 400 [(''message'', JString ''IDs de notificacion y ID de usuario requeridos'')]
            d [])"

definition markAllNotificationsAsRead :: "req \<Rightarrow> db \<Rightarrow> outcome" where
  "markAllNotificationsAsRead r d =
     (case b_userId (body r) of
        None \<Rightarrow> reply 400 [(''message'', JString ''ID de usuario requerido'')] d []
      | Some uid \<Rightarrow>
          reply 200 [(''message'', JString ''Todas las notificaciones marcadas como leidas'')]
            (snd (Notification_updateMany_read d
                    (\<lambda>n. uid \<in> set (recipients n) \<and> \<not> isRead n)))
            [Notification_updateMany])"

definition deleteNotification :: "env \<Rightarrow> req \<Rightarrow> db \<Rightarrow> outcome" where
  "deleteNotification e r d =
     (case b_userId (body r) of
        None \<Rightarrow> reply 400 [(''message'', JString ''ID de usuario requerido'')] d []
      | Some uid \<Rightarrow>
          (case Notification_findById_q d (params_id r) of
             None \<Rightarrow>
               reply 404 [(''message'', JString ''Notificacion no encontrada'')] d
                 [Notification_findById]
           | Some n \<Rightarrow>
               if \<not> document_remove e
               then reply 500 [(''message'', JString ''Error al eliminar notificacion''),
                               (''error'', JString ''notification.remove is not a function'')]
                      d [Notification_findById]
               else reply 200 [(''message'', JString ''Notificacion eliminada'')]
                      (User_pull_notification (Notification_delete d (params_id r))
                         (params_id r))
                      [Notification_findById, Notification_deleteOne, User_updateMany]))"

section \<open>Notification handlers of index.js\<close>

text \<open>
  The inline handlers of index.js; each runs behind \<^verbatim>\<open>authenticateToken\<close> and takes
  the caller from the verified claims (\<^verbatim>\<open>req.user\<close>). The create handler has no
  \<^verbatim>\<open>try\<close>: a failed \<^verbatim>\<open>save\<close> rejects the handler's promise. Mongoose casts a
  \<^verbatim>\<open>recipientIds\<close> that is a single id to the one-element array, in the document
  and under \<^verbatim>\<open>$in\<close>; without the field the array is empty, the schema's default.
\<close>

definition post_notifications :: "nat \<Rightarrow> claims \<Rightarrow> req \<Rightarrow> db \<Rightarrow> outcome" where
  "post_notifications now usr r d =
     (if \<not> tok_isAdmin usr
      then reply 403 [(''message'', JString ''Admin privileges required'')] d []
      else (let recipientIds = (case b_recipientIds (body r) of
                                  NoIds \<Rightarrow> [] | OneId i \<Rightarrow> [i] | Ids ids \<Rightarrow> ids)
            in case Notification_save_new d now (b_message (body r)) recipientIds of
                 Inl err \<Rightarrow> rejects err d [Notification_save]
               | Inr (n, d') \<Rightarrow>
                   reply 201 [(''message'', JString ''Notification sent sers'')]
                     (User_push_notification d' recipientIds (n_id n))
                     [Notification_save, User_updateMany]))"

definition get_notifications_filter :: "env \<Rightarrow> nat \<Rightarrow> claims \<Rightarrow> req \<Rightarrow> db \<Rightarrow> outcome" where
  "get_notifications_filter e now usr r d =
     (case (if query_range r = Some ''today'' then Some (startOfToday e now)
            else if query_range r = Some ''this_week'' then Some (startOfThisWeek e now)
            else if query_range r = Some ''last_month'' then Some (startOfLastMonth e now)
            else None) of
        None \<Rightarrow> reply 400 [(''message'', JString ''Invalid range parameter'')] d []
      | Some startDate \<Rightarrow>
          (let ns = filter (\<lambda>n. userId usr \<in> set (recipients n) \<and>
                                 startDate \<le> createdAt n \<and> createdAt n \<le> now) (notifs d)
           in reply 200 [(''length'', JNum (length ns)), (''notifications'', JNotifications ns)]
                d [Notification_find]))"

definition get_my_notifications :: "claims \<Rightarrow> req \<Rightarrow> db \<Rightarrow> outcome" where
  "get_my_notifications usr r d =
     (case User_findById_q d (userId usr) of
        None \<Rightarrow> rejects ''TypeError'' d [User_findById]
      | Some u \<Rightarrow>
          (let ns = populate d (notifications u)
           in reply 200 [(''length'', JNum (length ns)), (''notifications'', JNotifications ns)]
                d [User_findById, Notification_find]))"

definition put_notifications_read :: "claims \<Rightarrow> req \<Rightarrow> db \<Rightarrow> outcome" where
  "put_notifications_read usr r d =
     (case b_notificationIds (body r) of
        Ids ids \<Rightarrow>
          if ids = []
          then reply 400 [(''message'', JString ''notificationIds must be a non-empty array'')]
                 d []
          else (case Notification_updateMany_read d
                       (\<lambda>n. n_id n \<in> set ids \<and> userId usr \<in> set (recipients n)) of
                  (modifiedCount, d') \<Rightarrow>
                    reply 200 [(''message'', JString ''Notifications marked as read''),
                               (''modifiedCount'', JNum modifiedCount)] d'
                      [Notification_updateMany])
      | _ \<Rightarrow>
          reply 400 [(''message'', JString ''notificationIds must be a non-empty array'')] d [])"

definition put_my_notifications_read_all :: "claims \<Rightarrow> req \<Rightarrow> db \<Rightarrow> outcome" where
  "put_my_notifications_read_all usr r d =
     reply 200 [(''message'', JString ''All notifications marked as read'')]
       (snd (Notification_updateMany_read d
               (\<lambda>n. userId usr \<in> set (recipients n) \<and> \<not> isRead n)))
       [Notification_updateMany]"

definition delete_notifications_id :: "claims \<Rightarrow> req \<Rightarrow> db \<Rightarrow> outcome" where
  "delete_notifications_id usr r d =
     (case Notification_findById_q d (params_id r) of
        None \<Rightarrow>
          reply 404 [(''message'', JString ''Notification not found'')] d [Notification_findById]
      | Some n \<Rightarrow>
          reply 200 [(''message'', JString ''Notification deleted'')]
            (Notification_delete (User_pull_notification d (params_id r)) (params_id r))
            [Notification_findById, User_updateMany, Notification_deleteOne])"

section \<open>Routing\<close>

datatype operation =
    Register | Login | Logout | Protected | GrantAdmin | DeleteUser
  | CreateNotification | FilterNotifications | MyNotifications | MarkRead | MarkAllRead
  | DeleteNotification

text \<open>The route table of index.js.\<close>

fun app_index :: "env \<Rightarrow> nat \<Rightarrow> operation \<Rightarrow> req \<Rightarrow> db \<Rightarrow> outcome" where
  "app_index e now Register = validate (registerSchema e) (registerController e)"
| "app_index e now Login = validate (loginSchema e) (loginController e now)"
| "app_index e now Logout = logoutController"
| "app_index e now Protected = authenticateToken e now protectedEndpoint"
| "app_index e now GrantAdmin = authenticateToken e now grantAdminPrivileges"
| "app_index e now DeleteUser = authenticateToken e now deleteUser"
| "app_index e now CreateNotification = authenticateToken e now (post_notifications now)"
| "app_index e now FilterNotifications =
     authenticateToken e now (get_notifications_filter e now)"
| "app_index e now MyNotifications = authenticateToken e now get_my_notifications"
| "app_index e now MarkRead = authenticateToken e now put_notifications_read"
| "app_index e now MarkAllRead = authenticateToken e now put_my_notifications_read_all"
| "app_index e now DeleteNotification = authenticateToken e now delete_notifications_id"

text \<open>
  The modular entry point mounts \<^verbatim>\<open>authRoutes\<close>, then \<^verbatim>\<open>notificationRoutes\<close>;
  a request no router takes gets the framework's 404.
\<close>

fun authRoutes :: "env \<Rightarrow> nat \<Rightarrow> operation \<Rightarrow> (req \<Rightarrow> db \<Rightarrow> outcome) option" where
  "authRoutes e now Login = Some (validate (loginSchema e) (loginController e now))"
| "authRoutes e now Register = Some (validate (registerSchema e) (registerController e))"
| "authRoutes e now GrantAdmin = Some (authenticateToken e now grantAdminPrivileges)"
| "authRoutes e now DeleteUser = Some (authenticateToken e now deleteUser)"
| "authRoutes e now Protected = Some (authenticateToken e now protectedEndpoint)"
| "authRoutes e now Logout = Some logoutController"
| "authRoutes e now _ = None"

fun notificationRoutes :: "env \<Rightarrow> nat \<Rightarrow> operation \<Rightarrow> (req \<Rightarrow> db \<Rightarrow> outcome) option" where
  "notificationRoutes e now CreateNotification = Some (createNotification now)"
| "notificationRoutes e now MyNotifications = Some getUserNotifications"
| "notificationRoutes e now MarkRead = Some markNotificationsAsRead"
| "notificationRoutes e now MarkAllRead = Some markAllNotificationsAsRead"
| "notificationRoutes e now DeleteNotification = Some (deleteNotification e)"
| "notificationRoutes e now _ = None"

definition app_modular :: "env \<Rightarrow> nat \<Rightarrow> operation \<Rightarrow> req \<Rightarrow> db \<Rightarrow> outcome" where
  "app_modular e now op r d =
     (case authRoutes e now op of
        Some h \<Rightarrow> h r d
      | None \<Rightarrow>
          (case notificationRoutes e now op of
             Some h \<Rightarrow> h r d
           | None \<Rightarrow> reply 404 [] d []))"

section \<open>Observations and example data\<close>

definition status_of :: "outcome \<Rightarrow> nat option" where
  "status_of out = (case res out of Sent rsp \<Rightarrow> Some (status rsp) | Unhandled err \<Rightarrow> None)"

text \<open>The claims \<^verbatim>\<open>authenticateToken\<close> attaches to the request, if it lets it through.\<close>

definition verified :: "env \<Rightarrow> nat \<Rightarrow> req \<Rightarrow> claims option" where
  "verified e now r =
     (case cookie_token r of
        None \<Rightarrow> None
      | Some t \<Rightarrow>
          (case jwt_verify t (JWT_SECRET e) (now div 1000) of
             Inl err \<Rightarrow> None
           | Inr usr \<Rightarrow> Some usr))"

definition example_env :: env where
  "example_env =
     \<lparr>JWT_SECRET = ''s3cret'', production = False,
      bcrypt_hash = (\<lambda>pw. ''$2a$10$'' @ pw),
      bcrypt_compare = (\<lambda>pw h. h = ''$2a$10$'' @ pw),
      is_email = (\<lambda>s. CHR ''@'' \<in> set s),
      startOfToday = (\<lambda>t. t - t mod 86400000),
      startOfThisWeek = (\<lambda>t. t - t mod 604800000),
      startOfLastMonth = (\<lambda>t. t - t mod 2592000000),
      document_remove = False\<rparr>"

definition alice :: user where
  "alice = \<lparr>u_id = 1, email = ''a@x.com'', username = ''alice'', password = ''$2a$10$secret1'',
            isDeleted = False, isAdmin = False, notifications = [7]\<rparr>"

definition bob :: user where
  "bob = \<lparr>u_id = 2, email = ''b@x.com'', username = ''bob'', password = ''$2a$10$secret2'',
          isDeleted = False, isAdmin = False, notifications = []\<rparr>"

definition carol :: user where
  "carol = \<lparr>u_id = 3, email = ''c@x.com'', username = ''carol'', password = ''$2a$10$secret3'',
            isDeleted = False, isAdmin = True, notifications = [7]\<rparr>"

definition note7 :: notification where
  "note7 = \<lparr>n_id = 7, message = ''hi'', createdAt = 1000, isRead = False, recipients = [1, 3]\<rparr>"

definition example_db :: db where
  "example_db = \<lparr>users = [alice, bob, carol], notifs = [note7]\<rparr>"

definition no_body :: req_body where
  "no_body = \<lparr>b_email = None, b_username = None, b_password = None, b_message = None,
              b_recipientIds = NoIds, b_userIds = NoIds, b_notificationIds = NoIds,
              b_userId = None\<rparr>"

definition anonymous :: req where
  "anonymous = \<lparr>cookie_token = None, params_id = 0, query_range = None, query_userId = None,
                body = no_body\<rparr>"

text \<open>Tokens issued at second 1000: for bob, for carol (an admin), and one forged for bob.\<close>

definition bob_token :: token where
  "bob_token = jwt_sign 2 False ''s3cret'' 1000"

definition carol_token :: token where
  "carol_token = jwt_sign 3 True ''s3cret'' 1000"

definition forged_token :: token where
  "forged_token = jwt_sign 2 True ''guess'' 1000"

definition json_of :: "outcome \<Rightarrow> (string \<times> jv) list" where
  "json_of out = (case res out of Sent rsp \<Rightarrow> json rsp | Unhandled err \<Rightarrow> [])"

text \<open>
  What the unique indexes of the store guarantee: no two documents of a collection share
  an \<^verbatim>\<open>_id\<close>, and no two users share an e-mail.
\<close>

definition unique_indexes :: "db \<Rightarrow> bool" where
  "unique_indexes d \<longleftrightarrow>
     distinct (map u_id (users d)) \<and> distinct (map email (users d)) \<and>
     distinct (map n_id (notifs d))"

definition alice_token :: token where
  "alice_token = jwt_sign 1 False ''s3cret'' 1000"

text \<open>Requests used below.\<close>

definition forged_delete_user :: req where
  "forged_delete_user = anonymous\<lparr>cookie_token := Some forged_token, params_id := 1\<rparr>"

definition tokenless_mark_read :: req where
  "tokenless_mark_read =
     anonymous\<lparr>body := no_body\<lparr>b_notificationIds := Ids [7], b_userId := Some 1\<rparr>\<rparr>"

definition bob_creates :: req where
  "bob_creates =
     anonymous\<lparr>cookie_token := Some bob_token,
               body := no_body\<lparr>b_message := Some ''hi'', b_userIds := Ids [1]\<rparr>\<rparr>"

definition carol_creates_for_nobody :: req where
  "carol_creates_for_nobody =
     anonymous\<lparr>cookie_token := Some carol_token,
               body := no_body\<lparr>b_message := Some ''hello'', b_recipientIds := Ids []\<rparr>\<rparr>"

definition bob_deletes_note7 :: req where
  "bob_deletes_note7 = anonymous\<lparr>cookie_token := Some bob_token, params_id := 7\<rparr>"

definition alice_marks_nothing :: req where
  "alice_marks_nothing =
     anonymous\<lparr>cookie_token := Some alice_token,
               body := no_body\<lparr>b_notificationIds := Ids []\<rparr>\<rparr>"

definition alice_marks_note7 :: req where
  "alice_marks_note7 =
     anonymous\<lparr>cookie_token := Some alice_token,
               body := no_body\<lparr>b_notificationIds := Ids [7]\<rparr>\<rparr>"

definition login_as :: "string \<Rightarrow> string \<Rightarrow> req" where
  "login_as em pw = anonymous\<lparr>body := no_body\<lparr>b_email := Some em, b_password := Some pw\<rparr>\<rparr>"

section \<open>The token issuer\<close>

lemma jwt_verify_fresh:
  "t < t0 + 3600 \<Longrightarrow>
   jwt_verify (jwt_sign uid adm secret t0) secret t =
     Inr \<lparr>userId = uid, tok_isAdmin = adm, iat = t0, expiry = t0 + 3600\<rparr>"
  by (simp add: jwt_sign_def)

lemma jwt_verify_after_one_hour:
  "t0 + 3600 \<le> t \<Longrightarrow> jwt_verify (jwt_sign uid adm secret t0) secret t = Inl TokenExpired"
  by (simp add: jwt_sign_def)



section \<open>The authorization guard\<close>

lemma verified_None_iff:
  "verified e now r = None \<longleftrightarrow>
     cookie_token r = None \<or>
     (\<exists>t err. cookie_token r = Some t \<and>
               jwt_verify t (JWT_SECRET e) (now div 1000) = Inl err)"
  by (auto simp: verified_def split: option.splits sum.splits)

lemma no_token_iff: "no_token c \<longleftrightarrow> c = None \<or> c = Some (Malformed [])"
  by (cases c rule: no_token.cases) auto

lemma no_token_not_verified: "no_token (cookie_token r) \<Longrightarrow> verified e now r = None"
  by (auto simp: no_token_iff verified_def)

lemma authenticateToken_rejects:
  assumes "verified e now r = None"
  shows "authenticateToken e now nxt r d =
           reply (if no_token (cookie_token r) then 401 else 403)
             [(''message'',
               JString (if no_token (cookie_token r) then ''Token required''
                        else ''Invalid token''))]
             d []"
  using assms
  by (auto simp: verified_def authenticateToken_def split: option.splits sum.splits)

lemma authenticateToken_passes:
  "verified e now r = Some usr \<Longrightarrow> authenticateToken e now nxt r d = nxt usr r d"
  by (auto simp: verified_def authenticateToken_def no_token_iff
      split: option.splits sum.splits)

text \<open>
  C4 (as amended). The guard fails with 401 only when the request carries no token (no
  token cookie, or an empty one); a token that is malformed, signed with another key or
  expired fails with 403; a failure has no other status, and a token that verifies is
  not refused by the guard.
\<close>

theorem authenticateToken_failure_status:
  "(no_token (cookie_token r) \<longrightarrow>
      status_of (authenticateToken e now nxt r d) = Some 401)
   \<and> (\<forall>s. s \<noteq> [] \<and> cookie_token r = Some (Malformed s) \<longrightarrow>
          status_of (authenticateToken e now nxt r d) = Some 403)
   \<and> (\<forall>c k. cookie_token r = Some (Jwt c k) \<and> k \<noteq> JWT_SECRET e \<longrightarrow>
          status_of (authenticateToken e now nxt r d) = Some 403)
   \<and> (\<forall>c. cookie_token r = Some (Jwt c (JWT_SECRET e)) \<and> expiry c \<le> now div 1000 \<longrightarrow>
          status_of (authenticateToken e now nxt r d) = Some 403)
   \<and> (\<forall>c. cookie_token r = Some (Jwt c (JWT_SECRET e)) \<and> now div 1000 < expiry c \<longrightarrow>
          authenticateToken e now nxt r d = nxt c r d)"
  by (auto simp: authenticateToken_def status_of_def reply_def)

theorem authenticateToken_failure_status_witness:
  "no_token (cookie_token anonymous)
   \<and> status_of (authenticateToken example_env 5000000 protectedEndpoint anonymous example_db)
       = Some 401
   \<and> no_token (cookie_token (anonymous\<lparr>cookie_token := Some (Malformed [])\<rparr>))
   \<and> status_of (authenticateToken example_env 2000000 protectedEndpoint
                  (anonymous\<lparr>cookie_token := Some (Malformed [])\<rparr>) example_db) = Some 401
   \<and> status_of (authenticateToken example_env 2000000 protectedEndpoint
                  (anonymous\<lparr>cookie_token := Some (Malformed ''abc'')\<rparr>) example_db) = Some 403
   \<and> forged_token = Jwt \<lparr>userId = 2, tok_isAdmin = True, iat = 1000, expiry = 4600\<rparr> ''guess''
   \<and> ''guess'' \<noteq> JWT_SECRET example_env
   \<and> status_of (authenticateToken example_env 2000000 protectedEndpoint
                  (anonymous\<lparr>cookie_token := Some forged_token\<rparr>) example_db) = Some 403"
proof -
  have f: "forged_token = Jwt \<lparr>userId = 2, tok_isAdmin = True, iat = 1000, expiry = 4600\<rparr> ''guess''"
    by (simp add: forged_token_def jwt_sign_def)
  have k: "''guess'' \<noteq> JWT_SECRET example_env"
    by (simp add: example_env_def)
  have a: "no_token (cookie_token anonymous)"
    by (simp add: anonymous_def)
  have b: "no_token (cookie_token (anonymous\<lparr>cookie_token := Some (Malformed [])\<rparr>))"
    by simp
  have m: "''abc'' \<noteq> [] \<and>
           cookie_token (anonymous\<lparr>cookie_token := Some (Malformed ''abc'')\<rparr>)
             = Some (Malformed ''abc'')"
    by simp
  have g: "cookie_token (anonymous\<lparr>cookie_token := Some forged_token\<rparr>)
             = Some (Jwt \<lparr>userId = 2, tok_isAdmin = True, iat = 1000, expiry = 4600\<rparr> ''guess'')"
    by (simp add: f)
  from authenticateToken_failure_status
         [of anonymous example_env 5000000 protectedEndpoint example_db] a
  have 1: "status_of (authenticateToken example_env 5000000 protectedEndpoint anonymous
                        example_db) = Some 401"
    by blast
  from authenticateToken_failure_status
         [of "anonymous\<lparr>cookie_token := Some (Malformed [])\<rparr>" example_env 2000000
             protectedEndpoint example_db] b
  have 2: "status_of (authenticateToken example_env 2000000 protectedEndpoint
                        (anonymous\<lparr>cookie_token := Some (Malformed [])\<rparr>) example_db)
             = Some 401"
    by blast
  from authenticateToken_failure_status
         [of "anonymous\<lparr>cookie_token := Some (Malformed ''abc'')\<rparr>" example_env 2000000
             protectedEndpoint example_db] m
  have 3: "status_of (authenticateToken example_env 2000000 protectedEndpoint
                        (anonymous\<lparr>cookie_token := Some (Malformed ''abc'')\<rparr>) example_db)
             = Some 403"
    by blast
  from authenticateToken_failure_status
         [of "anonymous\<lparr>cookie_token := Some forged_token\<rparr>" example_env 2000000
             protectedEndpoint example_db] g k
  have 4: "status_of (authenticateToken example_env 2000000 protectedEndpoint
                        (anonymous\<lparr>cookie_token := Some forged_token\<rparr>) example_db) = Some 403"
    by blast
  from a 1 b 2 3 f k 4 show ?thesis by blast
qed

theorem authenticateToken_expired_counterexample:
  "jwt_verify bob_token (JWT_SECRET example_env) (5000000 div 1000) = Inl TokenExpired
   \<and> status_of (authenticateToken example_env 5000000 protectedEndpoint
                  (anonymous\<lparr>cookie_token := Some bob_token\<rparr>) example_db) = Some 403
   \<and> status_of (authenticateToken example_env 5000000 protectedEndpoint
                  (anonymous\<lparr>cookie_token := Some bob_token\<rparr>) example_db) \<noteq> Some 401"
  by (simp add: authenticateToken_def status_of_def reply_def bob_token_def jwt_sign_def
        example_env_def anonymous_def)

section \<open>Guarded operations\<close>

text \<open>
  C1 (as amended). In index.js every operation other than register, login and logout
  runs behind the guard: a request without a valid token is answered by the guard alone,
  with 401 when the token cookie is absent or empty and 403 when the token does not
  verify; no model method has been called and the store is the one the request found.
\<close>

theorem guarded_operations_reject_before_store:
  assumes "op \<notin> {Register, Login, Logout}" and "verified e now r = None"
  shows "status_of (app_index e now op r d)
           = Some (if no_token (cookie_token r) then 401 else 403)
         \<and> trace (app_index e now op r d) = []
         \<and> store (app_index e now op r d) = d"
  using assms by (cases op) (simp_all add: authenticateToken_rejects reply_def status_of_def)

theorem guarded_operations_reject_before_store_witness:
  "GrantAdmin \<notin> {Register, Login, Logout}
   \<and> verified example_env 2000000 anonymous = None
   \<and> status_of (app_index example_env 2000000 GrantAdmin anonymous example_db) = Some 401
   \<and> trace (app_index example_env 2000000 GrantAdmin anonymous example_db) = []
   \<and> store (app_index example_env 2000000 GrantAdmin anonymous example_db) = example_db
   \<and> verified example_env 2000000 (anonymous\<lparr>cookie_token := Some (Malformed [])\<rparr>) = None
   \<and> status_of (app_index example_env 2000000 GrantAdmin
                  (anonymous\<lparr>cookie_token := Some (Malformed [])\<rparr>) example_db) = Some 401
   \<and> verified example_env 2000000 (anonymous\<lparr>cookie_token := Some forged_token\<rparr>) = None
   \<and> status_of (app_index example_env 2000000 GrantAdmin
                  (anonymous\<lparr>cookie_token := Some forged_token\<rparr>) example_db) = Some 403
   \<and> store (app_index example_env 2000000 GrantAdmin
              (anonymous\<lparr>cookie_token := Some forged_token\<rparr>) example_db) = example_db"
  using guarded_operations_reject_before_store
          [of GrantAdmin example_env 2000000 anonymous example_db]
        guarded_operations_reject_before_store
          [of GrantAdmin example_env 2000000 "anonymous\<lparr>cookie_token := Some (Malformed [])\<rparr>"
              example_db]
        guarded_operations_reject_before_store
          [of GrantAdmin example_env 2000000 "anonymous\<lparr>cookie_token := Some forged_token\<rparr>"
              example_db]
  by (simp add: verified_def anonymous_def forged_token_def jwt_sign_def example_env_def)

theorem guarded_operations_counterexample:
  "verified example_env 2000000 forged_delete_user = None
   \<and> status_of (app_index example_env 2000000 DeleteUser forged_delete_user example_db)
       = Some 403
   \<and> status_of (app_index example_env 2000000 DeleteUser forged_delete_user example_db)
       \<noteq> Some 401
   \<and> verified example_env 2000000 tokenless_mark_read = None
   \<and> status_of (app_modular example_env 2000000 MarkRead tokenless_mark_read example_db)
       = Some 200
   \<and> trace (app_modular example_env 2000000 MarkRead tokenless_mark_read example_db)
       = [Notification_updateMany]
   \<and> notifs (store (app_modular example_env 2000000 MarkRead tokenless_mark_read example_db))
       = [note7\<lparr>isRead := True\<rparr>]"
  by (simp add: verified_def forged_delete_user_def tokenless_mark_read_def anonymous_def
        no_body_def forged_token_def jwt_sign_def example_env_def authenticateToken_def
        reply_def status_of_def app_modular_def markNotificationsAsRead_def
        Notification_updateMany_read_def example_db_def note7_def)

text \<open>The auth router of the modular entry point guards its three protected routes alike.\<close>

lemma authRoutes_reject_before_store:
  assumes "op \<in> {Protected, GrantAdmin, DeleteUser}" and "verified e now r = None"
  shows "app_modular e now op r d =
           reply (if no_token (cookie_token r) then 401 else 403)
             [(''message'',
               JString (if no_token (cookie_token r) then ''Token required''
                        else ''Invalid token''))]
             d []"
  using assms by (auto simp: app_modular_def authenticateToken_rejects)

text \<open>
  The notification router of the modular entry point has no guard: what it answers and
  what it does to the store do not depend on the cookie.
\<close>

lemma notification_router_ignores_token:
  assumes "op \<in> {CreateNotification, MyNotifications, MarkRead, MarkAllRead, DeleteNotification}"
  shows "app_modular e now op (r\<lparr>cookie_token := t\<rparr>) d = app_modular e now op r d"
  using assms
  by (auto simp: app_modular_def createNotification_def getUserNotifications_def
      markNotificationsAsRead_def markAllNotificationsAsRead_def deleteNotification_def
      split: option.splits ids_field.splits)

section \<open>Creating notifications\<close>

lemma post_notifications_not_admin:
  "\<not> tok_isAdmin usr \<Longrightarrow>
   post_notifications now usr r d =
     reply 403 [(''message'', JString ''Admin privileges required'')] d []"
  by (simp add: post_notifications_def)

lemma post_notifications_created_only_for_admin:
  "status_of (post_notifications now usr r d) = Some 201 \<Longrightarrow> tok_isAdmin usr"
  by (cases "tok_isAdmin usr") (simp_all add: post_notifications_def reply_def status_of_def)

lemma app_index_create_not_admin:
  assumes "verified e now r = Some usr" and "\<not> tok_isAdmin usr"
  shows "app_index e now CreateNotification r d =
           reply 403 [(''message'', JString ''Admin privileges required'')] d []"
  using assms by (simp add: authenticateToken_passes post_notifications_not_admin)

text \<open>
  C3. The modular router mounts \<^verbatim>\<open>createNotification\<close> with no guard and the handler
  never looks at the caller: bob, whose token says \<open>isAdmin = False\<close>, gets 201 and the
  notification is stored and pushed to alice. (The handler of index.js refuses him:
  \<open>app_index_create_not_admin\<close>.)
\<close>

theorem createNotification_non_admin_creates:
  "map_option tok_isAdmin (verified example_env 2000000 bob_creates) = Some False
   \<and> status_of (app_modular example_env 2000000 CreateNotification bob_creates example_db)
       = Some 201
   \<and> notifs (store (app_modular example_env 2000000 CreateNotification bob_creates example_db))
       = [note7, \<lparr>n_id = 8, message = ''hi'', createdAt = 2000000, isRead = False,
                  recipients = [1]\<rparr>]
   \<and> users (store (app_modular example_env 2000000 CreateNotification bob_creates example_db))
       = [alice\<lparr>notifications := [7, 8]\<rparr>, bob, carol]"
  by (simp add: verified_def bob_creates_def anonymous_def no_body_def bob_token_def
        jwt_sign_def example_env_def app_modular_def createNotification_def
        Notification_save_new_def new_oid_def User_push_notification_def reply_def
        status_of_def example_db_def note7_def alice_def bob_def carol_def Let_def)

lemma createNotification_invalid_input:
  assumes "b_message (body r) = None \<or> b_message (body r) = Some []
           \<or> (\<forall>ids. b_userIds (body r) \<noteq> Ids ids) \<or> b_userIds (body r) = Ids []"
  shows "createNotification now r d =
           reply 400 [(''message'', JString ''Mensaje y lista de usuarios son requeridos'')] d []"
  using assms by (auto simp: createNotification_def split: option.splits ids_field.splits)

lemma post_notifications_empty_message:
  assumes "tok_isAdmin usr"
    and "b_message (body r) = None \<or> b_message (body r) = Some []"
  shows "post_notifications now usr r d = rejects ''ValidationError'' d [Notification_save]"
  using assms by (auto simp: post_notifications_def Notification_save_new_def)

text \<open>
  C6. The create handler of index.js checks neither field: carol, an admin, sends a
  message with the empty recipient list and gets 201, and the notification is stored
  with no recipient. (\<^verbatim>\<open>createNotification\<close> of the controller answers 400 and
  stores nothing: \<open>createNotification_invalid_input\<close>; with an empty message the handler
  of index.js stores nothing, yet sends no 400: \<open>post_notifications_empty_message\<close>.)
\<close>

theorem post_notifications_empty_recipients_persisted:
  "map_option tok_isAdmin (verified example_env 2000000 carol_creates_for_nobody) = Some True
   \<and> b_recipientIds (body carol_creates_for_nobody) = Ids []
   \<and> status_of (app_index example_env 2000000 CreateNotification carol_creates_for_nobody
                  example_db) = Some 201
   \<and> notifs (store (app_index example_env 2000000 CreateNotification carol_creates_for_nobody
                      example_db))
       = [note7, \<lparr>n_id = 8, message = ''hello'', createdAt = 2000000, isRead = False,
                  recipients = []\<rparr>]"
  by (simp add: verified_def carol_creates_for_nobody_def anonymous_def no_body_def
        carol_token_def jwt_sign_def example_env_def authenticateToken_def
        post_notifications_def Notification_save_new_def new_oid_def
        User_push_notification_def reply_def status_of_def example_db_def note7_def Let_def)

section \<open>Deleting notifications\<close>

lemma delete_notifications_id_absent:
  assumes "Notification_findById_q d (params_id r) = None"
  shows "delete_notifications_id usr r d =
           reply 404 [(''message'', JString ''Notification not found'')] d
             [Notification_findById]"
  using assms by (simp add: delete_notifications_id_def)

lemma delete_notifications_id_present:
  assumes "Notification_findById_q d (params_id r) = Some n"
  shows "delete_notifications_id usr r d =
           reply 200 [(''message'', JString ''Notification deleted'')]
             (Notification_delete (User_pull_notification d (params_id r)) (params_id r))
             [Notification_findById, User_updateMany, Notification_deleteOne]"
  using assms by (simp add: delete_notifications_id_def)

lemma delete_notifications_id_never_forbidden:
  "status_of (delete_notifications_id usr r d) \<noteq> Some 403"
  by (simp add: delete_notifications_id_def reply_def status_of_def split: option.splits)

lemma deleteNotification_never_forbidden:
  "status_of (deleteNotification e r d) \<noteq> Some 403"
  by (simp add: deleteNotification_def reply_def status_of_def split: option.splits)

text \<open>
  C2. Neither delete handler compares the caller with the recipients or looks at the
  admin flag. Bob is no recipient of notification 7 and no admin; his delete request is
  answered 200, the notification is gone and its id is pulled from alice's and carol's
  lists.
\<close>

theorem delete_by_non_recipient_succeeds:
  "verified example_env 2000000 bob_deletes_note7
     = Some \<lparr>userId = 2, tok_isAdmin = False, iat = 1000, expiry = 4600\<rparr>
   \<and> Notification_findById_q example_db 7 = Some note7
   \<and> 2 \<notin> set (recipients note7)
   \<and> status_of (app_index example_env 2000000 DeleteNotification bob_deletes_note7 example_db)
       = Some 200
   \<and> store (app_index example_env 2000000 DeleteNotification bob_deletes_note7 example_db)
       = \<lparr>users = [alice\<lparr>notifications := []\<rparr>, bob, carol\<lparr>notifications := []\<rparr>],
          notifs = []\<rparr>"
  by (simp add: verified_def bob_deletes_note7_def anonymous_def bob_token_def jwt_sign_def
        example_env_def authenticateToken_def delete_notifications_id_def
        Notification_findById_q_def Notification_delete_def User_pull_notification_def
        reply_def status_of_def example_db_def note7_def alice_def bob_def carol_def)

section \<open>The unique indexes are kept\<close>

text \<open>
  The hypotheses below that ids and e-mails are unique are what the store's indexes
  enforce; every operation of index.js keeps them.
\<close>

lemma fold_max_ge: "a \<le> fold max ids (a::nat)"
  by (induction ids arbitrary: a) (auto intro: order_trans[OF max.cobounded2])

lemma fold_max_mem: "x \<in> set ids \<Longrightarrow> x \<le> fold max ids (a::nat)"
proof (induction ids arbitrary: a)
  case Nil then show ?case by simp
next
  case (Cons i ids)
  show ?case
  proof (cases "x = i")
    case True
    have "i \<le> max i a" by simp
    also have "\<dots> \<le> fold max ids (max i a)" by (rule fold_max_ge)
    finally show ?thesis using True by simp
  next
    case False
    with Cons show ?thesis by simp
  qed
qed

lemma new_oid_fresh: "new_oid ids \<notin> set ids"
  using fold_max_mem[of "new_oid ids" ids 0] by (auto simp: new_oid_def)

lemma update_first_map:
  assumes "\<And>u. g (f u) = g u"
  shows "map g (update_first i f us) = map g us"
  using assms by (induction us) auto

lemma unique_indexes_register:
  assumes "unique_indexes d" and "User_save_new d em un pw = Inr d'"
  shows "unique_indexes d'"
  using assms new_oid_fresh[of "map u_id (users d)"]
  by (auto simp: unique_indexes_def User_save_new_def split: if_splits)

lemma unique_indexes_save_notification:
  assumes "unique_indexes d" and "Notification_save_new d now msg rs = Inr (n, d')"
  shows "unique_indexes d'"
  using assms new_oid_fresh[of "map n_id (notifs d)"]
  by (auto simp: unique_indexes_def Notification_save_new_def Let_def
      split: option.splits if_splits)

lemma unique_indexes_push:
  "unique_indexes d \<Longrightarrow> unique_indexes (User_push_notification d ids nid)"
  by (simp add: unique_indexes_def User_push_notification_def comp_def if_distrib cong: if_cong)

lemma unique_indexes_pull:
  "unique_indexes d \<Longrightarrow> unique_indexes (User_pull_notification d nid)"
  by (simp add: unique_indexes_def User_pull_notification_def comp_def if_distrib cong: if_cong)

lemma unique_indexes_read:
  "unique_indexes d \<Longrightarrow> unique_indexes (snd (Notification_updateMany_read d flt))"
  by (simp add: unique_indexes_def Notification_updateMany_read_def comp_def if_distrib
      cong: if_cong)

lemma unique_indexes_delete:
  "unique_indexes d \<Longrightarrow> unique_indexes (Notification_delete d i)"
  by (simp add: unique_indexes_def Notification_delete_def distinct_map_filter)

lemma unique_indexes_findByIdAndUpdate:
  assumes "unique_indexes d" and "\<And>u. u_id (f u) = u_id u" and "\<And>u. email (f u) = email u"
  shows "unique_indexes (snd (User_findByIdAndUpdate_q d i f))"
  using assms
  by (simp add: unique_indexes_def User_findByIdAndUpdate_q_def update_first_map)

lemma store_reply [simp]: "store (reply st js d tr) = d"
  by (simp add: reply_def)

lemma store_rejects [simp]: "store (rejects err d tr) = d"
  by (simp add: rejects_def)

lemma unique_indexes_authenticateToken:
  assumes "unique_indexes d" and "\<And>usr. unique_indexes (store (h usr r d))"
  shows "unique_indexes (store (authenticateToken e now h r d))"
  using assms by (simp add: authenticateToken_def split: option.splits sum.splits)

lemma unique_indexes_validate:
  assumes "unique_indexes d" and "unique_indexes (store (h r d))"
  shows "unique_indexes (store (validate sch h r d))"
  using assms by (simp add: validate_def split: option.splits)

lemma registerController_keeps_indexes: "unique_indexes d \<Longrightarrow> unique_indexes (store (registerController e r d))"
  by (auto simp: registerController_def split: option.splits sum.splits
      dest: unique_indexes_register)

lemma loginController_keeps_indexes: "unique_indexes d \<Longrightarrow> unique_indexes (store (loginController e now r d))"
  by (auto simp: loginController_def split: option.splits)

lemma logoutController_keeps_indexes: "unique_indexes d \<Longrightarrow> unique_indexes (store (logoutController r d))"
  by (simp add: logoutController_def)

lemma protectedEndpoint_keeps_indexes: "unique_indexes d \<Longrightarrow> unique_indexes (store (protectedEndpoint usr r d))"
  by (simp add: protectedEndpoint_def)

lemma grantAdminPrivileges_keeps_indexes: "unique_indexes d \<Longrightarrow> unique_indexes (store (grantAdminPrivileges usr r d))"
  by (simp add: grantAdminPrivileges_def unique_indexes_findByIdAndUpdate)

lemma deleteUser_keeps_indexes: "unique_indexes d \<Longrightarrow> unique_indexes (store (deleteUser usr r d))"
  using unique_indexes_findByIdAndUpdate[of d "\<lambda>u. u\<lparr>isDeleted := True\<rparr>" "params_id r"]
  by (auto simp: deleteUser_def split: prod.splits option.splits)

lemma post_notifications_keeps_indexes: "unique_indexes d \<Longrightarrow> unique_indexes (store (post_notifications now usr r d))"
  by (auto simp: post_notifications_def Let_def split: sum.splits
      intro!: unique_indexes_push dest: unique_indexes_save_notification)

lemma get_notifications_filter_keeps_indexes:
  "unique_indexes d \<Longrightarrow> unique_indexes (store (get_notifications_filter e now usr r d))"
  by (simp add: get_notifications_filter_def Let_def split: option.splits)

lemma get_my_notifications_keeps_indexes: "unique_indexes d \<Longrightarrow> unique_indexes (store (get_my_notifications usr r d))"
  by (simp add: get_my_notifications_def Let_def split: option.splits)

lemma put_notifications_read_keeps_indexes: "unique_indexes d \<Longrightarrow> unique_indexes (store (put_notifications_read usr r d))"
  using unique_indexes_read[of d]
  by (auto simp: put_notifications_read_def split: ids_field.splits prod.splits)
    (metis snd_conv)

lemma put_my_notifications_read_all_keeps_indexes:
  "unique_indexes d \<Longrightarrow> unique_indexes (store (put_my_notifications_read_all usr r d))"
  by (simp add: put_my_notifications_read_all_def unique_indexes_read)

lemma delete_notifications_id_keeps_indexes:
  "unique_indexes d \<Longrightarrow> unique_indexes (store (delete_notifications_id usr r d))"
  by (simp add: delete_notifications_id_def unique_indexes_delete unique_indexes_pull
      split: option.splits)

lemma app_index_keeps_unique_indexes:
  "unique_indexes d \<Longrightarrow> unique_indexes (store (app_index e now op r d))"
  by (cases op)
    (simp_all add: unique_indexes_authenticateToken unique_indexes_validate registerController_keeps_indexes loginController_keeps_indexes
       logoutController_keeps_indexes protectedEndpoint_keeps_indexes grantAdminPrivileges_keeps_indexes deleteUser_keeps_indexes post_notifications_keeps_indexes get_notifications_filter_keeps_indexes get_my_notifications_keeps_indexes put_notifications_read_keeps_indexes put_my_notifications_read_all_keeps_indexes delete_notifications_id_keeps_indexes)


section \<open>Marking notifications read\<close>

lemma isRead_update_fixpoint: "n\<lparr>isRead := True\<rparr> = n \<longleftrightarrow> isRead n"
  by (cases n) simp

lemma modified_count_is_changed:
  "length (filter (\<lambda>n. flt n \<and> \<not> isRead n) ns) =
   length (filter (\<lambda>(n, n'). n' \<noteq> n)
             (zip ns (map (\<lambda>n. if flt n then n\<lparr>isRead := True\<rparr> else n) ns)))"
  by (induction ns) (auto simp: isRead_update_fixpoint)

text \<open>
  C7 (as amended). For a non-empty id list, the mark-read handler of index.js answers
  200, sets \<open>isRead\<close> on exactly the stored notifications whose id is in the list and
  whose recipients contain the caller, leaves every other notification and every user
  as it was, and reports as \<open>modifiedCount\<close> the number of notifications that are no
  longer what they were.
\<close>

theorem put_notifications_read_marks_exactly:
  assumes "b_notificationIds (body r) = Ids ids" and "ids \<noteq> []"
  shows "status_of (put_notifications_read usr r d) = Some 200
         \<and> trace (put_notifications_read usr r d) = [Notification_updateMany]
         \<and> users (store (put_notifications_read usr r d)) = users d
         \<and> notifs (store (put_notifications_read usr r d)) =
             map (\<lambda>n. if n_id n \<in> set ids \<and> userId usr \<in> set (recipients n)
                       then n\<lparr>isRead := True\<rparr> else n) (notifs d)
         \<and> json_of (put_notifications_read usr r d) =
             [(''message'', JString ''Notifications marked as read''),
              (''modifiedCount'',
               JNum (length (filter (\<lambda>(n, n'). n' \<noteq> n)
                               (zip (notifs d)
                                    (notifs (store (put_notifications_read usr r d)))))))]"
  using assms
    modified_count_is_changed
      [of "\<lambda>n. n_id n \<in> set ids \<and> userId usr \<in> set (recipients n)" "notifs d"]
  by (simp add: put_notifications_read_def Notification_updateMany_read_def reply_def
        status_of_def json_of_def)

theorem put_notifications_read_marks_exactly_witness:
  "b_notificationIds (body alice_marks_note7) = Ids [7] \<and> [7::nat] \<noteq> []
   \<and> status_of (put_notifications_read \<lparr>userId = 1, tok_isAdmin = False, iat = 1000, expiry = 4600\<rparr>
                  alice_marks_note7 example_db) = Some 200
   \<and> notifs (store (put_notifications_read
                      \<lparr>userId = 1, tok_isAdmin = False, iat = 1000, expiry = 4600\<rparr>
                      alice_marks_note7 example_db)) = [note7\<lparr>isRead := True\<rparr>]
   \<and> json_of (put_notifications_read
                \<lparr>userId = 1, tok_isAdmin = False, iat = 1000, expiry = 4600\<rparr>
                alice_marks_note7 example_db)
       = [(''message'', JString ''Notifications marked as read''), (''modifiedCount'', JNum 1)]"
  using put_notifications_read_marks_exactly
          [of alice_marks_note7 "[7]" "\<lparr>userId = 1, tok_isAdmin = False, iat = 1000, expiry = 4600\<rparr>"
              example_db]
  by (simp add: alice_marks_note7_def anonymous_def no_body_def example_db_def note7_def)

theorem put_notifications_read_empty_counterexample:
  "verified example_env 2000000 alice_marks_nothing
     = Some \<lparr>userId = 1, tok_isAdmin = False, iat = 1000, expiry = 4600\<rparr>
   \<and> b_notificationIds (body alice_marks_nothing) = Ids []
   \<and> status_of (app_index example_env 2000000 MarkRead alice_marks_nothing example_db)
       = Some 400
   \<and> json_of (app_index example_env 2000000 MarkRead alice_marks_nothing example_db)
       = [(''message'', JString ''notificationIds must be a non-empty array'')]"
  by (simp add: verified_def alice_marks_nothing_def anonymous_def no_body_def alice_token_def
        jwt_sign_def example_env_def authenticateToken_def put_notifications_read_def
        reply_def status_of_def json_of_def)

lemma put_notifications_read_no_list:
  assumes "b_notificationIds (body r) = Ids [] \<or> (\<forall>ids. b_notificationIds (body r) \<noteq> Ids ids)"
  shows "put_notifications_read usr r d =
           reply 400 [(''message'', JString ''notificationIds must be a non-empty array'')] d []"
  using assms by (auto simp: put_notifications_read_def split: ids_field.splits)

lemma mark_twice:
  "map (\<lambda>n. if n_id n \<in> S \<and> u \<in> set (recipients n) then n\<lparr>isRead := True\<rparr> else n)
     (map (\<lambda>n. if n_id n \<in> S \<and> u \<in> set (recipients n) then n\<lparr>isRead := True\<rparr> else n) ns)
   = map (\<lambda>n. if n_id n \<in> S \<and> u \<in> set (recipients n) then n\<lparr>isRead := True\<rparr> else n) ns"
  by (induction ns) auto

lemma put_notifications_read_store:
  assumes "b_notificationIds (body r) = Ids ids" and "ids \<noteq> []"
  shows "put_notifications_read usr r d =
           reply 200 [(''message'', JString ''Notifications marked as read''),
                      (''modifiedCount'',
                       JNum (length (filter (\<lambda>n. n_id n \<in> set ids \<and>
                                                  userId usr \<in> set (recipients n) \<and>
                                                  \<not> isRead n) (notifs d))))]
             (d\<lparr>notifs := map (\<lambda>n. if n_id n \<in> set ids \<and> userId usr \<in> set (recipients n)
                                    then n\<lparr>isRead := True\<rparr> else n) (notifs d)\<rparr>)
             [Notification_updateMany]"
  using assms
  by (simp add: put_notifications_read_def Notification_updateMany_read_def)

lemma find_after_mark:
  assumes "distinct (map n_id ns)" and "n \<in> set ns" and "flt n"
  shows "find (\<lambda>m. n_id m = n_id n) (map (\<lambda>m. if flt m then m\<lparr>isRead := True\<rparr> else m) ns)
           = Some (n\<lparr>isRead := True\<rparr>)"
  using assms by (induction ns) (auto simp: image_iff)

lemma marked_read_everywhere:
  assumes "distinct (map n_id ns)" and "n \<in> set ns" and "flt n"
    and "m \<in> set (map (\<lambda>m. if flt m then m\<lparr>isRead := True\<rparr> else m) ns)"
    and "n_id m = n_id n"
  shows "isRead m"
proof -
  from assms(4) obtain m0 where m0: "m0 \<in> set ns"
    and m: "m = (if flt m0 then m0\<lparr>isRead := True\<rparr> else m0)" by auto
  have "n_id m0 = n_id n" using m assms(5) by (auto split: if_splits)
  with assms(1,2) m0 have "m0 = n" by (meson distinct_map inj_onD)
  with m assms(3) show ?thesis by simp
qed

text \<open>
  \<^verbatim>\<open>markNotificationsAsRead\<close> of the controller makes the same update for the caller
  named in the body, and answers with the message alone.
\<close>

lemma markNotificationsAsRead_effect:
  assumes "b_notificationIds (body r) = Ids ids" and "ids \<noteq> []"
    and "b_userId (body r) = Some uid"
  shows "markNotificationsAsRead r d =
           reply 200 [(''message'', JString ''Notificaciones marcadas como leidas'')]
             (d\<lparr>notifs := map (\<lambda>n. if n_id n \<in> set ids \<and> uid \<in> set (recipients n)
                                    then n\<lparr>isRead := True\<rparr> else n) (notifs d)\<rparr>)
             [Notification_updateMany]"
  using assms by (simp add: markNotificationsAsRead_def Notification_updateMany_read_def)

text \<open>
  C8. When the caller is a recipient of the stored notification n1, marking it read
  answers 200; the one document then carries \<open>isRead = True\<close>, so the listing of
  every recipient of n1 shows n1 as read and shows no unread document with its id;
  marking it again answers 200 and leaves the store as it is.
\<close>

theorem markRead_shared_flag_idempotent:
  assumes "distinct (map n_id (notifs d))"
    and "n1 \<in> set (notifs d)"
    and "userId usr \<in> set (recipients n1)"
    and "b_notificationIds (body r) = Ids [n_id n1]"
  shows "status_of (put_notifications_read usr r d) = Some 200
         \<and> Notification_findById_q (store (put_notifications_read usr r d)) (n_id n1)
             = Some (n1\<lparr>isRead := True\<rparr>)
         \<and> (\<forall>b \<in> set (recipients n1).
               n1\<lparr>isRead := True\<rparr> \<in>
                 set (filter (\<lambda>n. b \<in> set (recipients n))
                        (notifs (store (put_notifications_read usr r d))))
               \<and> (\<forall>n \<in> set (filter (\<lambda>n. b \<in> set (recipients n))
                                (notifs (store (put_notifications_read usr r d)))).
                     n_id n = n_id n1 \<longrightarrow> isRead n))
         \<and> status_of (put_notifications_read usr r (store (put_notifications_read usr r d)))
             = Some 200
         \<and> store (put_notifications_read usr r (store (put_notifications_read usr r d)))
             = store (put_notifications_read usr r d)"
proof -
  let ?flt = "\<lambda>n. n_id n \<in> set [n_id n1] \<and> userId usr \<in> set (recipients n)"
  let ?ns = "map (\<lambda>n. if ?flt n then n\<lparr>isRead := True\<rparr> else n) (notifs d)"
  have out: "put_notifications_read usr r d' =
               reply 200 [(''message'', JString ''Notifications marked as read''),
                          (''modifiedCount'',
                           JNum (length (filter (\<lambda>n. n_id n \<in> set [n_id n1] \<and>
                                                      userId usr \<in> set (recipients n) \<and>
                                                      \<not> isRead n) (notifs d'))))]
                 (d'\<lparr>notifs := map (\<lambda>n. if ?flt n then n\<lparr>isRead := True\<rparr> else n)
                                  (notifs d')\<rparr>)
                 [Notification_updateMany]" for d'
    using put_notifications_read_store[OF assms(4), of usr d'] by simp
  have st: "store (put_notifications_read usr r d) = d\<lparr>notifs := ?ns\<rparr>"
    by (simp add: out reply_def)
  have flt: "?flt n1" using assms(3) by simp
  have fnd: "find (\<lambda>m. n_id m = n_id n1) ?ns = Some (n1\<lparr>isRead := True\<rparr>)"
    using find_after_mark[OF assms(1,2), of ?flt] flt by blast
  have mem: "n1\<lparr>isRead := True\<rparr> \<in> set ?ns"
    using assms(2) flt by (force simp: image_iff)
  have all: "isRead m" if "m \<in> set ?ns" "n_id m = n_id n1" for m
    using marked_read_everywhere[OF assms(1,2), of ?flt m] flt that by blast
  have twice: "map (\<lambda>n. if ?flt n then n\<lparr>isRead := True\<rparr> else n) ?ns = ?ns"
    using mark_twice[of "set [n_id n1]" "userId usr" "notifs d"] by simp
  have c1: "status_of (put_notifications_read usr r d') = Some 200" for d'
    by (simp add: out reply_def status_of_def)
  have c2: "Notification_findById_q (store (put_notifications_read usr r d)) (n_id n1)
              = Some (n1\<lparr>isRead := True\<rparr>)"
    unfolding st Notification_findById_q_def using fnd by simp
  have c3: "n1\<lparr>isRead := True\<rparr> \<in>
              set (filter (\<lambda>n. b \<in> set (recipients n))
                     (notifs (store (put_notifications_read usr r d))))"
    if "b \<in> set (recipients n1)" for b
    unfolding st using mem that by simp
  have c4: "isRead n"
    if "n \<in> set (filter (\<lambda>n. b \<in> set (recipients n))
                     (notifs (store (put_notifications_read usr r d))))"
      and "n_id n = n_id n1" for n b
  proof -
    from that(1) have "n \<in> set ?ns" unfolding st by simp
    then show ?thesis using that(2) by (rule all)
  qed
  have c5: "store (put_notifications_read usr r (store (put_notifications_read usr r d)))
              = store (put_notifications_read usr r d)"
  proof -
    have "store (put_notifications_read usr r (d\<lparr>notifs := ?ns\<rparr>))
            = (d\<lparr>notifs := ?ns\<rparr>)\<lparr>notifs := map (\<lambda>n. if ?flt n then n\<lparr>isRead := True\<rparr> else n)
                                              (notifs (d\<lparr>notifs := ?ns\<rparr>))\<rparr>"
      by (simp only: out reply_def outcome.simps)
    also have "\<dots> = d\<lparr>notifs := ?ns\<rparr>"
      using twice by simp
    finally show ?thesis unfolding st .
  qed
  from c1 c2 c3 c4 c5 show ?thesis by blast
qed

theorem markRead_shared_flag_idempotent_witness:
  "distinct (map n_id (notifs example_db)) \<and> note7 \<in> set (notifs example_db)
   \<and> userId \<lparr>userId = 1, tok_isAdmin = False, iat = 1000, expiry = 4600\<rparr>
       \<in> set (recipients note7)
   \<and> b_notificationIds (body alice_marks_note7) = Ids [n_id note7]
   \<and> Notification_findById_q
        (store (put_notifications_read
                  \<lparr>userId = 1, tok_isAdmin = False, iat = 1000, expiry = 4600\<rparr>
                  alice_marks_note7 example_db)) (n_id note7)
       = Some (note7\<lparr>isRead := True\<rparr>)
   \<and> note7\<lparr>isRead := True\<rparr>
       \<in> set (filter (\<lambda>n. 3 \<in> set (recipients n))
               (notifs (store (put_notifications_read
                                 \<lparr>userId = 1, tok_isAdmin = False, iat = 1000, expiry = 4600\<rparr>
                                 alice_marks_note7 example_db))))"
proof -
  have h1: "distinct (map n_id (notifs example_db))"
    by (simp add: example_db_def)
  have h2: "note7 \<in> set (notifs example_db)"
    by (simp add: example_db_def)
  have h3: "userId \<lparr>userId = 1, tok_isAdmin = False, iat = 1000, expiry = 4600\<rparr>
              \<in> set (recipients note7)"
    by (simp add: note7_def)
  have h4: "b_notificationIds (body alice_marks_note7) = Ids [n_id note7]"
    by (simp add: alice_marks_note7_def anonymous_def no_body_def note7_def)
  have h5: "(3::nat) \<in> set (recipients note7)"
    by (simp add: note7_def)
  from markRead_shared_flag_idempotent[OF h1 h2 h3 h4] h1 h2 h3 h4 h5
  show ?thesis by blast
qed


section \<open>Soft delete\<close>

lemma map_replace_absent:
  "u \<notin> set us \<Longrightarrow> map (\<lambda>v. if v = u then w else v) us = us"
  by (induction us) auto

lemma update_first_distinct:
  assumes "distinct (map u_id us)" and "u \<in> set us"
  shows "update_first (u_id u) f us = map (\<lambda>v. if v = u then f u else v) us"
  using assms
proof (induction us)
  case Nil
  then show ?case by simp
next
  case (Cons a us)
  show ?case
  proof (cases "a = u")
    case True
    with Cons.prems have "u \<notin> set us" by auto
    with True show ?thesis by (simp add: map_replace_absent)
  next
    case False
    with Cons.prems have "u \<in> set us" and "u_id a \<noteq> u_id u" by auto
    with Cons False show ?thesis by simp
  qed
qed

lemma find_by_id_distinct:
  "distinct (map u_id us) \<Longrightarrow> u \<in> set us \<Longrightarrow> find (\<lambda>v. u_id v = u_id u) us = Some u"
  by (induction us) (auto simp: image_iff)

lemma find_by_id_after_softDelete:
  assumes "distinct (map u_id us)" and "u \<in> set us"
  shows "find (\<lambda>v. u_id v = u_id u) (map (\<lambda>v. if v = u then u\<lparr>isDeleted := True\<rparr> else v) us)
           = Some (u\<lparr>isDeleted := True\<rparr>)"
  using assms by (induction us) (auto simp: image_iff)

lemma no_active_after_softDelete:
  assumes "distinct (map email us)" and "u \<in> set us"
  shows "find (\<lambda>v. email v = email u \<and> \<not> isDeleted v)
           (map (\<lambda>v. if v = u then u\<lparr>isDeleted := True\<rparr> else v) us) = None"
  using assms by (induction us) (auto simp: image_iff find_None_iff)

text \<open>
  C9. After the soft delete of a stored user, the login query for an active user with
  that e-mail finds nothing, while the document is still in the store under its id,
  with \<open>isDeleted\<close> set and every other field as before; no other document changes.
\<close>

theorem softDelete_hides_user:
  assumes "distinct (map u_id (users d))"
    and "distinct (map email (users d))"
    and "u \<in> set (users d)"
    and "params_id r = u_id u"
  shows "status_of (deleteUser usr r d) = Some 200
         \<and> User_findOne_active (store (deleteUser usr r d)) (email u) = None
         \<and> User_findById_q (store (deleteUser usr r d)) (u_id u) = Some (u\<lparr>isDeleted := True\<rparr>)
         \<and> users (store (deleteUser usr r d))
             = map (\<lambda>v. if v = u then u\<lparr>isDeleted := True\<rparr> else v) (users d)
         \<and> notifs (store (deleteUser usr r d)) = notifs d"
proof -
  have fnd: "User_findById_q d (params_id r) = Some u"
    using find_by_id_distinct[OF assms(1,3)] assms(4) by (simp add: User_findById_q_def)
  have upd: "update_first (params_id r) (\<lambda>u. u\<lparr>isDeleted := True\<rparr>) (users d)
               = map (\<lambda>v. if v = u then u\<lparr>isDeleted := True\<rparr> else v) (users d)"
    using update_first_distinct[OF assms(1,3)] assms(4) by simp
  have out: "deleteUser usr r d =
               reply 200 [(''message'', JString ''User deleted''),
                          (''user'', JUser (u\<lparr>isDeleted := True\<rparr>))]
                 (d\<lparr>users := map (\<lambda>v. if v = u then u\<lparr>isDeleted := True\<rparr> else v) (users d)\<rparr>)
                 [User_findByIdAndUpdate]"
    by (simp add: deleteUser_def User_findByIdAndUpdate_q_def fnd upd)
  show ?thesis
    using find_by_id_after_softDelete[OF assms(1,3)] no_active_after_softDelete[OF assms(2,3)]
    by (simp add: out reply_def status_of_def User_findOne_active_def User_findById_q_def)
qed

theorem softDelete_hides_user_witness:
  "distinct (map u_id (users example_db)) \<and> distinct (map email (users example_db))
   \<and> alice \<in> set (users example_db) \<and> params_id (anonymous\<lparr>params_id := 1\<rparr>) = u_id alice
   \<and> User_findOne_active
        (store (deleteUser \<lparr>userId = 2, tok_isAdmin = False, iat = 1000, expiry = 4600\<rparr>
                  (anonymous\<lparr>params_id := 1\<rparr>) example_db)) ''a@x.com'' = None
   \<and> User_findById_q
        (store (deleteUser \<lparr>userId = 2, tok_isAdmin = False, iat = 1000, expiry = 4600\<rparr>
                  (anonymous\<lparr>params_id := 1\<rparr>) example_db)) 1
       = Some (alice\<lparr>isDeleted := True\<rparr>)"
proof -
  have h1: "distinct (map u_id (users example_db))"
    by (simp add: example_db_def alice_def bob_def carol_def)
  have h2: "distinct (map email (users example_db))"
    by (simp add: example_db_def alice_def bob_def carol_def)
  have h3: "alice \<in> set (users example_db)"
    by (simp add: example_db_def)
  have h4: "params_id (anonymous\<lparr>params_id := 1\<rparr>) = u_id alice"
    by (simp add: alice_def)
  have e: "email alice = ''a@x.com''" "u_id alice = 1"
    by (simp_all add: alice_def)
  from softDelete_hides_user[OF h1 h2 h3 h4,
         of "\<lparr>userId = 2, tok_isAdmin = False, iat = 1000, expiry = 4600\<rparr>"] h1 h2 h3 h4 e
  show ?thesis by simp
qed


section \<open>Login\<close>

text \<open>
  The handler alone: an e-mail that matches no active user and a wrong password for an
  active user get the same outcome.
\<close>

lemma loginController_failure:
  assumes "b_email (body r1) = Some em1" and "b_password (body r1) = Some pw1"
    and "User_findOne_active d em1 = None"
    and "b_email (body r2) = Some em2" and "b_password (body r2) = Some pw2"
    and "User_findOne_active d em2 = Some u"
    and "\<not> bcrypt_compare e pw2 (password u)"
  shows "loginController e now r1 d = loginController e now r2 d
         \<and> loginController e now r1 d =
             reply 401 [(''message'', JString ''Invalid credentials'')] d [User_findOne]"
  using assms by (simp add: loginController_def)

lemma loginSchema_passes:
  "loginSchema e b = None \<longleftrightarrow>
     (\<exists>em pw. b_email b = Some em \<and> is_email e em \<and> b_password b = Some pw \<and> 6 \<le> length pw)"
  by (auto simp: loginSchema_def split: option.splits)

lemma login_route_invalid_body:
  assumes "loginSchema e (body r) = Some msg"
  shows "app_index e now Login r d =
           reply 400 [(''message'', JString ''Invalid data''), (''errors'', JString msg)] d []"
    and "app_modular e now Login r d =
           reply 400 [(''message'', JString ''Invalid data''), (''errors'', JString msg)] d []"
  using assms by (simp_all add: validate_def app_modular_def)

text \<open>
  C10 (as amended). On the login route of either entry point, for two attempts whose
  bodies pass the login schema, one with an e-mail that matches no active user and one
  with an active user's e-mail and a wrong password, the outcomes are identical: status
  401 with the message \<open>Invalid credentials\<close>, no cookie, the store as it was.
\<close>

theorem login_route_failure_indistinguishable:
  assumes "loginSchema e (body r1) = None" and "loginSchema e (body r2) = None"
    and "b_email (body r1) = Some em1" and "User_findOne_active d em1 = None"
    and "b_email (body r2) = Some em2" and "b_password (body r2) = Some pw2"
    and "User_findOne_active d em2 = Some u"
    and "\<not> bcrypt_compare e pw2 (password u)"
  shows "app_index e now Login r1 d = app_index e now Login r2 d
         \<and> app_modular e now Login r1 d = app_modular e now Login r2 d
         \<and> app_modular e now Login r1 d = app_index e now Login r1 d
         \<and> res (app_index e now Login r1 d)
             = Sent \<lparr>status = 401, json = [(''message'', JString ''Invalid credentials'')],
                     cookie = NoCookie\<rparr>
         \<and> store (app_index e now Login r1 d) = d"
proof -
  from assms(1) obtain pw1 where pw1: "b_password (body r1) = Some pw1"
    by (auto simp: loginSchema_passes)
  have eq: "loginController e now r1 d = loginController e now r2 d"
    and a1: "loginController e now r1 d =
               reply 401 [(''message'', JString ''Invalid credentials'')] d [User_findOne]"
    using loginController_failure[OF assms(3) pw1 assms(4) assms(5) assms(6) assms(7) assms(8)]
    by blast+
  have a2: "loginController e now r2 d =
              reply 401 [(''message'', JString ''Invalid credentials'')] d [User_findOne]"
    using a1 unfolding eq .
  show ?thesis
    by (simp add: validate_def app_modular_def assms(1,2) a1 a2 reply_def)
qed

theorem login_route_failure_indistinguishable_witness:
  "loginSchema example_env (body (login_as ''nobody@x.com'' ''secret1'')) = None
   \<and> loginSchema example_env (body (login_as ''a@x.com'' ''wrongpw'')) = None
   \<and> User_findOne_active example_db ''nobody@x.com'' = None
   \<and> User_findOne_active example_db ''a@x.com'' = Some alice
   \<and> \<not> bcrypt_compare example_env ''wrongpw'' (password alice)
   \<and> app_index example_env 2000000 Login (login_as ''nobody@x.com'' ''secret1'') example_db
       = app_index example_env 2000000 Login (login_as ''a@x.com'' ''wrongpw'') example_db
   \<and> res (app_index example_env 2000000 Login (login_as ''nobody@x.com'' ''secret1'')
             example_db)
       = Sent \<lparr>status = 401, json = [(''message'', JString ''Invalid credentials'')],
               cookie = NoCookie\<rparr>"
proof -
  have s1: "loginSchema example_env (body (login_as ''nobody@x.com'' ''secret1'')) = None"
    and s2: "loginSchema example_env (body (login_as ''a@x.com'' ''wrongpw'')) = None"
    by (simp_all add: loginSchema_def login_as_def anonymous_def no_body_def example_env_def)
  have h1: "b_email (body (login_as ''nobody@x.com'' ''secret1'')) = Some ''nobody@x.com''"
    and h4: "b_email (body (login_as ''a@x.com'' ''wrongpw'')) = Some ''a@x.com''"
    and h5: "b_password (body (login_as ''a@x.com'' ''wrongpw'')) = Some ''wrongpw''"
    by (simp_all add: login_as_def anonymous_def no_body_def)
  have h3: "User_findOne_active example_db ''nobody@x.com'' = None"
    by (simp add: User_findOne_active_def example_db_def alice_def bob_def carol_def)
  have h6: "User_findOne_active example_db ''a@x.com'' = Some alice"
    by (simp add: User_findOne_active_def example_db_def alice_def)
  have h7: "\<not> bcrypt_compare example_env ''wrongpw'' (password alice)"
    by (simp add: example_env_def alice_def)
  from login_route_failure_indistinguishable[OF s1 s2 h1 h3 h4 h5 h6 h7, of 2000000]
    s1 s2 h3 h6 h7
  show ?thesis by blast
qed

text \<open>
  The claim as it stands fails on the route: the schema refuses alice's e-mail with the
  wrong password \<open>abc\<close> (400), while the unknown e-mail with a six-character password
  gets 401.
\<close>

theorem login_route_short_password_counterexample:
  "User_findOne_active example_db ''nobody@x.com'' = None
   \<and> User_findOne_active example_db ''a@x.com'' = Some alice
   \<and> \<not> bcrypt_compare example_env ''abc'' (password alice)
   \<and> status_of (app_index example_env 2000000 Login (login_as ''nobody@x.com'' ''secret1'')
                  example_db) = Some 401
   \<and> status_of (app_index example_env 2000000 Login (login_as ''a@x.com'' ''abc'') example_db)
       = Some 400
   \<and> app_index example_env 2000000 Login (login_as ''nobody@x.com'' ''secret1'') example_db
       \<noteq> app_index example_env 2000000 Login (login_as ''a@x.com'' ''abc'') example_db"
  by (simp add: User_findOne_active_def example_db_def alice_def bob_def carol_def
        example_env_def validate_def loginSchema_def loginController_def login_as_def
        anonymous_def no_body_def reply_def status_of_def)

text \<open>
  What a failed login is answered depends on the body alone, not on whether the store
  holds the account.
\<close>

lemma login_route_failure_store_independent:
  assumes "\<forall>em. b_email (body r) = Some em \<longrightarrow> User_findOne_active d1 em = None"
    and "\<forall>em pw. b_email (body r) = Some em \<and> b_password (body r) = Some pw \<longrightarrow>
           (\<exists>u. User_findOne_active d2 em = Some u \<and> \<not> bcrypt_compare e pw (password u))"
  shows "res (app_index e now Login r d1) = res (app_index e now Login r d2)"
  using assms
  by (auto simp: validate_def loginSchema_def loginController_def reply_def
      split: option.splits)

end
